theory Spec2Isabelle
  imports Main
begin

section \<open>The record store of \<^verbatim>\<open>main.py\<close>\<close>

text \<open>
  The program keeps person records in the file \<^verbatim>\<open>data.csv\<close> and serves them through
  seven HTTP routes. Every handler reads the whole file into a data frame, works on the
  frame and, when it mutates, writes the whole frame back.

  The embedding works on the data frame: a frame is the list of its rows in file order,
  and the positional index that \<^verbatim>\<open>read_csv\<close> gives a frame (0, 1, 2, ...) is the
  position in the list. The file is an optional frame, \<open>None\<close> while \<^verbatim>\<open>data.csv\<close> does
  not exist. The CSV text that pandas writes and parses is outside the repository and is
  not part of the embedding: a frame that is written is the frame that is read.
\<close>

subsection \<open>Data model\<close>

text \<open>\<^verbatim>\<open>class Item\<close>; a row of the data frame has the same four columns.\<close>

record item =
  ident :: int
  nome :: string
  cognome :: string
  codice_fiscale :: string

text \<open>\<^verbatim>\<open>class ItemCreate\<close>: the three fields are required.\<close>

record item_create =
  new_nome :: string
  new_cognome :: string
  new_codice_fiscale :: string

text \<open>\<^verbatim>\<open>class ItemUpdate\<close>: each field is optional and defaults to \<^verbatim>\<open>None\<close>.\<close>

record item_update =
  upd_nome :: "string option"
  upd_cognome :: "string option"
  upd_codice_fiscale :: "string option"

type_synonym data_frame = "item list"

type_synonym csv_file = "data_frame option"

text \<open>\<^verbatim>\<open>HTTPException(status_code, detail)\<close>.\<close>

datatype http_exception = HTTPException nat string

subsection \<open>Helper functions\<close>

text \<open>\<^verbatim>\<open>write_csv\<close> replaces the file by the frame.\<close>

definition write_csv :: "data_frame \<Rightarrow> csv_file" where
  "write_csv df = Some df"

text \<open>
  \<^verbatim>\<open>init_csv\<close> writes a frame without rows when the file does not exist and leaves an
  existing file alone.
\<close>

definition init_csv :: "csv_file \<Rightarrow> csv_file" where
  "init_csv f = (if f = None then write_csv [] else f)"

text \<open>
  \<^verbatim>\<open>read_csv\<close> runs \<^verbatim>\<open>init_csv\<close> and then parses the file, which exists by then.
  It returns the file as \<^verbatim>\<open>init_csv\<close> left it together with the frame.
\<close>

definition read_csv :: "csv_file \<Rightarrow> csv_file \<times> data_frame" where
  "read_csv f = (case init_csv f of Some df \<Rightarrow> (Some df, df) | None \<Rightarrow> (Some [], []))"

definition get_next_id :: "csv_file \<Rightarrow> csv_file \<times> int" where
  "get_next_id f =
     (let (f1, df) = read_csv f
      in if df = [] then (f1, 1) else (f1, Max (set (map ident df)) + 1))"

subsection \<open>Handlers\<close>

text \<open>
  Each handler takes the file and its arguments and returns the file it leaves behind
  together with either the exception it raises (\<open>Inl\<close>) or its return value (\<open>Inr\<close>).
\<close>

definition create_item :: "csv_file \<Rightarrow> item_create \<Rightarrow> csv_file \<times> (http_exception + item)" where
  "create_item f item =
     (let (f1, df) = read_csv f
      in if df \<noteq> [] \<and> new_codice_fiscale item \<in> set (map codice_fiscale df)
         then (f1, Inl (HTTPException 400 ''Codice fiscale already exists''))
         else
           let (f2, new_id) = get_next_id f1;
               new_item = \<lparr>ident = new_id, nome = new_nome item, cognome = new_cognome item,
                           codice_fiscale = new_codice_fiscale item\<rparr>;
               df' = df @ [new_item]
           in (write_csv df', Inr new_item))"

definition get_all_items :: "csv_file \<Rightarrow> csv_file \<times> item list" where
  "get_all_items f =
     (let (f1, df) = read_csv f
      in if df = [] then (f1, []) else (f1, df))"

definition get_item :: "csv_file \<Rightarrow> int \<Rightarrow> csv_file \<times> (http_exception + item)" where
  "get_item f item_id =
     (let (f1, df) = read_csv f
      in if df = [] then (f1, Inl (HTTPException 404 ''Item not found''))
         else
           (case filter (\<lambda>r. ident r = item_id) df of
              [] \<Rightarrow> (f1, Inl (HTTPException 404 ''Item not found''))
            | r # _ \<Rightarrow> (f1, Inr r)))"

text \<open>
  In \<^verbatim>\<open>update_item\<close> the duplicate check is guarded by the truth value of the supplied
  fiscal code (\<^verbatim>\<open>if item_update.codice_fiscale:\<close>), which is false for \<^verbatim>\<open>None\<close> and for
  the empty string; the three assignments are guarded by \<^verbatim>\<open>is not None\<close>.
\<close>

definition truthy :: "string option \<Rightarrow> bool" where
  "truthy v = (case v of None \<Rightarrow> False | Some s \<Rightarrow> s \<noteq> [])"

definition set_nome :: "string option \<Rightarrow> nat \<Rightarrow> data_frame \<Rightarrow> data_frame" where
  "set_nome v idx df = (case v of None \<Rightarrow> df | Some s \<Rightarrow> df[idx := (df ! idx)\<lparr>nome := s\<rparr>])"

definition set_cognome :: "string option \<Rightarrow> nat \<Rightarrow> data_frame \<Rightarrow> data_frame" where
  "set_cognome v idx df = (case v of None \<Rightarrow> df | Some s \<Rightarrow> df[idx := (df ! idx)\<lparr>cognome := s\<rparr>])"

definition set_codice_fiscale :: "string option \<Rightarrow> nat \<Rightarrow> data_frame \<Rightarrow> data_frame" where
  "set_codice_fiscale v idx df =
     (case v of None \<Rightarrow> df | Some s \<Rightarrow> df[idx := (df ! idx)\<lparr>codice_fiscale := s\<rparr>])"

definition update_item ::
  "csv_file \<Rightarrow> int \<Rightarrow> item_update \<Rightarrow> csv_file \<times> (http_exception + item)" where
  "update_item f item_id item_update =
     (let (f1, df) = read_csv f
      in if df = [] then (f1, Inl (HTTPException 404 ''Item not found''))
         else
           (case filter (\<lambda>i. ident (df ! i) = item_id) [0..<length df] of
              [] \<Rightarrow> (f1, Inl (HTTPException 404 ''Item not found''))
            | idx # _ \<Rightarrow>
                if truthy (upd_codice_fiscale item_update) \<and>
                   filter (\<lambda>r. Some (codice_fiscale r) = upd_codice_fiscale item_update \<and>
                                ident r \<noteq> item_id) df \<noteq> []
                then (f1, Inl (HTTPException 400 ''Codice fiscale already exists''))
                else
                  let df' = set_codice_fiscale (upd_codice_fiscale item_update) idx
                              (set_cognome (upd_cognome item_update) idx
                                 (set_nome (upd_nome item_update) idx df))
                  in (write_csv df', Inr (df' ! idx))))"

definition delete_item :: "csv_file \<Rightarrow> int \<Rightarrow> csv_file \<times> (http_exception + string)" where
  "delete_item f item_id =
     (let (f1, df) = read_csv f
      in if df = [] then (f1, Inl (HTTPException 404 ''Item not found''))
         else if filter (\<lambda>r. ident r = item_id) df = []
         then (f1, Inl (HTTPException 404 ''Item not found''))
         else (write_csv (filter (\<lambda>r. ident r \<noteq> item_id) df), Inr ''Item deleted successfully''))"

definition get_items_count :: "csv_file \<Rightarrow> csv_file \<times> nat" where
  "get_items_count f = (let (f1, df) = read_csv f in (f1, length df))"

definition root :: string where
  "root = ''CSV Management API is running''"

subsection \<open>Routing\<close>

text \<open>
  The decorators register the routes in the order of the file. The framework tries the
  routes in that order: the first route whose path pattern and method both match the
  request is the one that runs. A pattern segment \<^verbatim>\<open>{item_id}\<close> matches any non-empty
  text without a slash; the conversion to \<^verbatim>\<open>int\<close> that the handler's signature asks for
  happens after the route was chosen, and a text that is not an integer is answered with
  status 422 without calling the handler. When only the path of some route matches, the
  answer is 405, and 404 when nothing matches (a path that matches after adding or
  removing a final slash is redirected with 307).
\<close>

datatype http_method = GET | POST | PUT | DELETE

datatype path_pattern = Literal string | With_param string

datatype endpoint =
  Create_item | Get_all_items | Get_item | Update_item | Delete_item | Get_items_count | Root

definition routes :: "(http_method \<times> path_pattern \<times> endpoint) list" where
  "routes =
     [(POST, Literal ''/items/'', Create_item),
      (GET, Literal ''/items/'', Get_all_items),
      (GET, With_param ''/items/'', Get_item),
      (PUT, With_param ''/items/'', Update_item),
      (DELETE, With_param ''/items/'', Delete_item),
      (GET, Literal ''/items/count'', Get_items_count),
      (GET, Literal ''/'', Root)]"

text \<open>The path parameter of a matching path, \<open>Some []\<close> for a pattern without parameter.\<close>

fun path_match :: "path_pattern \<Rightarrow> string \<Rightarrow> string option" where
  "path_match (Literal p) path = (if path = p then Some [] else None)"
| "path_match (With_param p) path =
     (let rest = drop (length p) path
      in if take (length p) path = p \<and> rest \<noteq> [] \<and> CHR ''/'' \<notin> set rest
         then Some rest else None)"

text \<open>Integers in a path: decimal digits after an optional sign.\<close>

definition digit :: "char \<Rightarrow> bool" where
  "digit c = (c \<in> set ''0123456789'')"

definition decimal :: "string \<Rightarrow> nat" where
  "decimal ds = foldl (\<lambda>n c. 10 * n + (of_char c - 48)) 0 ds"

definition int_param :: "string \<Rightarrow> int option" where
  "int_param s =
     (let (neg, ds) = (case s of
                         c # cs \<Rightarrow> if c = CHR ''-'' then (True, cs)
                                   else if c = CHR ''+'' then (False, cs) else (False, s)
                       | [] \<Rightarrow> (False, s))
      in if ds \<noteq> [] \<and> list_all digit ds
         then Some (if neg then - int (decimal ds) else int (decimal ds)) else None)"

text \<open>
  A request body is a JSON object that may carry each of the three text fields.
  \<^verbatim>\<open>ItemUpdate\<close> accepts every such object, \<^verbatim>\<open>ItemCreate\<close> those with all three.
\<close>

definition as_item_create :: "item_update \<Rightarrow> item_create option" where
  "as_item_create b =
     (case (upd_nome b, upd_cognome b, upd_codice_fiscale b) of
        (Some n, Some c, Some cf) \<Rightarrow>
          Some \<lparr>new_nome = n, new_cognome = c, new_codice_fiscale = cf\<rparr>
      | _ \<Rightarrow> None)"

datatype content =
  Record item | Records "item list" | Message string | Count nat | Detail string
  | Validation_error | Location string

datatype response = Response nat content

definition raised :: "http_exception \<Rightarrow> response" where
  "raised e = (case e of HTTPException status_code detail \<Rightarrow> Response status_code (Detail detail))"

definition unprocessable :: response where
  "unprocessable = Response 422 Validation_error"

fun call_endpoint ::
  "endpoint \<Rightarrow> string \<Rightarrow> item_update option \<Rightarrow> csv_file \<Rightarrow> csv_file \<times> response" where
  "call_endpoint Create_item param body f =
     (case body of
        None \<Rightarrow> (f, unprocessable)
      | Some b \<Rightarrow>
          (case as_item_create b of
             None \<Rightarrow> (f, unprocessable)
           | Some item \<Rightarrow>
               (case create_item f item of
                  (f1, Inl e) \<Rightarrow> (f1, raised e)
                | (f1, Inr r) \<Rightarrow> (f1, Response 200 (Record r)))))"
| "call_endpoint Get_all_items param body f =
     (case get_all_items f of (f1, rs) \<Rightarrow> (f1, Response 200 (Records rs)))"
| "call_endpoint Get_item param body f =
     (case int_param param of
        None \<Rightarrow> (f, unprocessable)
      | Some item_id \<Rightarrow>
          (case get_item f item_id of
             (f1, Inl e) \<Rightarrow> (f1, raised e)
           | (f1, Inr r) \<Rightarrow> (f1, Response 200 (Record r))))"
| "call_endpoint Update_item param body f =
     (case (int_param param, body) of
        (Some item_id, Some item_update) \<Rightarrow>
          (case update_item f item_id item_update of
             (f1, Inl e) \<Rightarrow> (f1, raised e)
           | (f1, Inr r) \<Rightarrow> (f1, Response 200 (Record r)))
      | _ \<Rightarrow> (f, unprocessable))"
| "call_endpoint Delete_item param body f =
     (case int_param param of
        None \<Rightarrow> (f, unprocessable)
      | Some item_id \<Rightarrow>
          (case delete_item f item_id of
             (f1, Inl e) \<Rightarrow> (f1, raised e)
           | (f1, Inr m) \<Rightarrow> (f1, Response 200 (Message m))))"
| "call_endpoint Get_items_count param body f =
     (case get_items_count f of (f1, n) \<Rightarrow> (f1, Response 200 (Count n)))"
| "call_endpoint Root param body f = (f, Response 200 (Message root))"

definition toggle_slash :: "string \<Rightarrow> string" where
  "toggle_slash path = (if path \<noteq> [] \<and> last path = CHR ''/'' then butlast path else path @ ''/'')"

text \<open>The router's loop over the routes: the first route matching path and method.\<close>

fun full_match ::
  "(http_method \<times> path_pattern \<times> endpoint) list \<Rightarrow> http_method \<Rightarrow> string \<Rightarrow>
   (endpoint \<times> string) option" where
  "full_match [] method path = None"
| "full_match ((m, p, e) # rs) method path =
     (case path_match p path of
        Some param \<Rightarrow> if m = method then Some (e, param) else full_match rs method path
      | None \<Rightarrow> full_match rs method path)"

definition path_known :: "(http_method \<times> path_pattern \<times> endpoint) list \<Rightarrow> string \<Rightarrow> bool" where
  "path_known rs path = list_ex (\<lambda>(m, p, e). path_match p path \<noteq> None) rs"

definition handle ::
  "csv_file \<Rightarrow> http_method \<Rightarrow> string \<Rightarrow> item_update option \<Rightarrow> csv_file \<times> response" where
  "handle f method path body =
     (case full_match routes method path of
        Some (e, param) \<Rightarrow> call_endpoint e param body f
      | None \<Rightarrow>
          if path_known routes path
          then (f, Response 405 (Detail ''Method Not Allowed''))
          else if path \<noteq> ''/'' \<and> path_known routes (toggle_slash path)
          then (f, Response 307 (Location (toggle_slash path)))
          else (f, Response 404 (Detail ''Not Found'')))"

subsection \<open>Sequences of calls\<close>

text \<open>
  The rows of the table that the file holds (none while the file does not exist), and
  the effect on the file of a sequence of handler calls.
\<close>

definition table :: "csv_file \<Rightarrow> data_frame" where
  "table f = (case f of None \<Rightarrow> [] | Some df \<Rightarrow> df)"

datatype call =
  Create item_create | List_all | Get_by_id int | Update int item_update | Delete_by_id int
  | Count_rows

fun exec :: "csv_file \<Rightarrow> call \<Rightarrow> csv_file" where
  "exec f (Create item) = fst (create_item f item)"
| "exec f List_all = fst (get_all_items f)"
| "exec f (Get_by_id item_id) = fst (get_item f item_id)"
| "exec f (Update item_id item_update) = fst (update_item f item_id item_update)"
| "exec f (Delete_by_id item_id) = fst (delete_item f item_id)"
| "exec f Count_rows = fst (get_items_count f)"

definition run :: "csv_file \<Rightarrow> call list \<Rightarrow> csv_file" where
  "run f calls = foldl exec f calls"


text \<open>The two uniqueness invariants of the data model.\<close>

definition unique_ids :: "data_frame \<Rightarrow> bool" where
  "unique_ids df = distinct (map ident df)"

definition unique_fiscal_codes :: "data_frame \<Rightarrow> bool" where
  "unique_fiscal_codes df = distinct (map codice_fiscale df)"

subsection \<open>Example data\<close>

text \<open>Requests and rows used where a statement is evaluated on a concrete table.\<close>

definition new_ada :: item_create where
  "new_ada = \<lparr>new_nome = ''Ada'', new_cognome = ''Rossi'', new_codice_fiscale = ''RSSDAA''\<rparr>"

definition new_bea :: item_create where
  "new_bea = \<lparr>new_nome = ''Bea'', new_cognome = ''Verdi'', new_codice_fiscale = ''VRDBEA''\<rparr>"

definition new_cleo :: item_create where
  "new_cleo = \<lparr>new_nome = ''Cleo'', new_cognome = ''Neri'', new_codice_fiscale = ''NRECLE''\<rparr>"

definition new_dora :: item_create where
  "new_dora = \<lparr>new_nome = ''Dora'', new_cognome = ''Gallo'', new_codice_fiscale = ''GLLDRO''\<rparr>"

definition new_ugo :: item_create where
  "new_ugo = \<lparr>new_nome = ''Ugo'', new_cognome = ''Bianchi'', new_codice_fiscale = []\<rparr>"

definition ada :: item where
  "ada = \<lparr>ident = 1, nome = ''Ada'', cognome = ''Rossi'', codice_fiscale = ''RSSDAA''\<rparr>"

definition bea :: item where
  "bea = \<lparr>ident = 2, nome = ''Bea'', cognome = ''Verdi'', codice_fiscale = ''VRDBEA''\<rparr>"

definition cleo :: item where
  "cleo = \<lparr>ident = 3, nome = ''Cleo'', cognome = ''Neri'', codice_fiscale = ''NRECLE''\<rparr>"

definition ugo :: item where
  "ugo = \<lparr>ident = 1, nome = ''Ugo'', cognome = ''Bianchi'', codice_fiscale = []\<rparr>"

text \<open>An update that supplies the empty string as fiscal code and nothing else.\<close>

definition blank_fiscal_code :: item_update where
  "blank_fiscal_code = \<lparr>upd_nome = None, upd_cognome = None, upd_codice_fiscale = Some []\<rparr>"


section \<open>The handlers in terms of the table\<close>

text \<open>
  Every handler leaves an existing file behind, and what it returns is a function of the
  rows of the table. The lemmas of this section put each handler in that form.
\<close>

lemma read_csv_table: "read_csv f = (Some (table f), table f)"
  by (cases f) (simp_all add: read_csv_def init_csv_def write_csv_def table_def)

lemma table_Some [simp]: "table (Some df) = df"
  by (simp add: table_def)

lemma table_None [simp]: "table None = []"
  by (simp add: table_def)


lemma get_next_id_table:
  "get_next_id f =
     (Some (table f), if table f = [] then 1 else Max (ident ` set (table f)) + 1)"
  by (simp add: get_next_id_def read_csv_table)

lemma create_item_table:
  "create_item f item =
     (if new_codice_fiscale item \<in> codice_fiscale ` set (table f)
      then (Some (table f), Inl (HTTPException 400 ''Codice fiscale already exists''))
      else (Some (table f @
                  [\<lparr>ident = snd (get_next_id f), nome = new_nome item,
                    cognome = new_cognome item, codice_fiscale = new_codice_fiscale item\<rparr>]),
            Inr \<lparr>ident = snd (get_next_id f), nome = new_nome item,
                  cognome = new_cognome item, codice_fiscale = new_codice_fiscale item\<rparr>))"
  by (auto simp add: create_item_def read_csv_table get_next_id_table write_csv_def Let_def)

lemma get_all_items_table: "get_all_items f = (Some (table f), table f)"
  by (simp add: get_all_items_def read_csv_table)

lemma get_items_count_table: "get_items_count f = (Some (table f), length (table f))"
  by (simp add: get_items_count_def read_csv_table)

lemma case_filter_find:
  "(case filter P xs of [] \<Rightarrow> a | r # _ \<Rightarrow> b r) = (case find P xs of None \<Rightarrow> a | Some r \<Rightarrow> b r)"
  by (induction xs) auto

lemma get_item_table:
  "get_item f item_id =
     (Some (table f),
      case find (\<lambda>r. ident r = item_id) (table f) of
        None \<Rightarrow> Inl (HTTPException 404 ''Item not found'')
      | Some r \<Rightarrow> Inr r)"
proof (cases "find (\<lambda>r. ident r = item_id) (table f)")
  case None
  then show ?thesis
    by (simp add: get_item_def read_csv_table case_filter_find)
next
  case (Some r)
  then have "table f \<noteq> []" by auto
  with Some show ?thesis
    by (simp add: get_item_def read_csv_table case_filter_find)
qed

lemma delete_item_table:
  "delete_item f item_id =
     (if item_id \<in> ident ` set (table f)
      then (Some (filter (\<lambda>r. ident r \<noteq> item_id) (table f)), Inr ''Item deleted successfully'')
      else (Some (table f), Inl (HTTPException 404 ''Item not found'')))"
  by (auto simp add: delete_item_def read_csv_table write_csv_def filter_empty_conv)


lemma first_index:
  assumes "filter (\<lambda>i. P (xs ! i)) [0..<length xs] = i # js"
  shows "i < length xs \<and> P (xs ! i) \<and> (\<forall>j<i. \<not> P (xs ! j))"
proof -
  from assms obtain us vs where
    split: "[0..<length xs] = us @ i # vs" and
    before: "\<forall>u\<in>set us. \<not> P (xs ! u)" and here: "P (xs ! i)"
    by (auto simp add: filter_eq_Cons_iff)
  have len: "length us < length xs"
    using arg_cong [OF split, of length] by simp
  have nth: "[0..<length xs] ! k = (us @ i # vs) ! k" for k
    by (simp add: split)
  have i: "i = length us"
    using nth [of "length us"] len by simp
  have mem: "j \<in> set us" if "j < i" for j
  proof -
    have "us ! j = j"
      using nth [of j] that i len by (simp add: nth_append)
    moreover have "j < length us" using that i by simp
    ultimately show ?thesis
      using nth_mem [of j us] by simp
  qed
  have "i < length xs" using i len by simp
  moreover have "\<forall>j<i. \<not> P (xs ! j)" using mem before by blast
  ultimately show ?thesis using here by simp
qed

lemma no_index:
  "filter (\<lambda>i. P (xs ! i)) [0..<length xs] = [] \<longleftrightarrow> (\<forall>x\<in>set xs. \<not> P x)"
  by (auto simp add: filter_empty_conv all_set_conv_all_nth)


lemma set_fields:
  assumes "idx < length df"
  shows "set_codice_fiscale c idx (set_cognome b idx (set_nome a idx df)) =
       df[idx := \<lparr>ident = ident (df ! idx),
                   nome = (case a of None \<Rightarrow> nome (df ! idx) | Some v \<Rightarrow> v),
                   cognome = (case b of None \<Rightarrow> cognome (df ! idx) | Some v \<Rightarrow> v),
                   codice_fiscale = (case c of None \<Rightarrow> codice_fiscale (df ! idx) | Some v \<Rightarrow> v)\<rparr>]"
proof -
  obtain i n k cf where
    row: "df ! idx = \<lparr>ident = i, nome = n, cognome = k, codice_fiscale = cf\<rparr>"
    by (cases "df ! idx")
  have same: "df[idx := \<lparr>ident = i, nome = n, cognome = k, codice_fiscale = cf\<rparr>] = df"
    using row by (metis list_update_id)
  show ?thesis
    using assms same
    by (cases a; cases b; cases c)
       (simp_all add: set_nome_def set_cognome_def set_codice_fiscale_def row)
qed

lemma update_item_not_found:
  "filter (\<lambda>i. ident (table f ! i) = item_id) [0..<length (table f)] = [] \<Longrightarrow>
   update_item f item_id u = (Some (table f), Inl (HTTPException 404 ''Item not found''))"
  unfolding update_item_def read_csv_table
  apply (simp only: prod.case Let_def)
  apply (simp only: list.case if_cancel)
  done

lemma update_item_found:
  assumes "filter (\<lambda>i. ident (table f ! i) = item_id) [0..<length (table f)] = idx # js"
  shows "update_item f item_id u =
     (if truthy (upd_codice_fiscale u) \<and>
         (\<exists>r\<in>set (table f). Some (codice_fiscale r) = upd_codice_fiscale u \<and> ident r \<noteq> item_id)
      then (Some (table f), Inl (HTTPException 400 ''Codice fiscale already exists''))
      else
        let r = \<lparr>ident = ident (table f ! idx),
                 nome = (case upd_nome u of None \<Rightarrow> nome (table f ! idx) | Some v \<Rightarrow> v),
                 cognome = (case upd_cognome u of None \<Rightarrow> cognome (table f ! idx) | Some v \<Rightarrow> v),
                 codice_fiscale = (case upd_codice_fiscale u of
                                     None \<Rightarrow> codice_fiscale (table f ! idx) | Some v \<Rightarrow> v)\<rparr>
        in (Some ((table f)[idx := r]), Inr r))"
proof -
  have idx: "idx < length (table f)"
    using first_index [of "\<lambda>r. ident r = item_id" "table f" idx js] assms by simp
  then have ne: "(table f = []) = False" by auto
  have ex: "(filter Q (table f) \<noteq> []) = (\<exists>r\<in>set (table f). Q r)" for Q
    by (auto simp add: filter_empty_conv)
  show ?thesis
    unfolding update_item_def read_csv_table
    apply (simp only: prod.case Let_def assms list.case ne if_False ex write_csv_def
        set_fields [OF idx])
    apply (simp only: nth_list_update_eq [OF idx])
    done
qed

section \<open>Counting\<close>

text \<open>
  Claim C2 says that \<^verbatim>\<open>GET /items/count\<close> always answers 200 with the number of rows.
  The handler \<open>get_items_count\<close> does return the number of rows, but the request never
  reaches it: the route \<^verbatim>\<open>/items/{item_id}\<close> is registered before
  \<^verbatim>\<open>/items/count\<close>, matches the path with \<^verbatim>\<open>count\<close> as the item id, and the
  conversion of that text to an integer fails. On every file and with every body the
  answer is status 422, and the file is not touched.
\<close>

theorem count_route_shadowed:
  "handle f GET ''/items/count'' body = (f, Response 422 Validation_error)"
  by (simp add: handle_def routes_def int_param_def digit_def unprocessable_def)

text \<open>No method and no path lead to \<open>get_items_count\<close>.\<close>

lemma get_items_count_unreachable:
  "full_match routes m path \<noteq> Some (Get_items_count, param)"
proof (cases "path = ''/items/count''")
  case True
  then show ?thesis
    by (cases m) (simp_all add: routes_def)
next
  case False
  then show ?thesis
    by (simp add: routes_def split: option.splits)
qed

section \<open>Creating\<close>

text \<open>
  Claim C3: when the fiscal code of a create request is not in the table, the new record
  gets the id 1 on a table without rows and otherwise the largest id of the table plus
  one, it carries the three fields of the request, it is appended after the last row,
  and it is the record that the call returns.
\<close>

theorem create_assigns_next_id:
  assumes "new_codice_fiscale item \<notin> codice_fiscale ` set (table f)"
  shows "let r = \<lparr>ident = (if table f = [] then 1 else Max (ident ` set (table f)) + 1),
                  nome = new_nome item, cognome = new_cognome item,
                  codice_fiscale = new_codice_fiscale item\<rparr>
         in create_item f item = (Some (table f @ [r]), Inr r)"
  using assms by (simp add: create_item_table get_next_id_table Let_def)

text \<open>
  After three creates on a missing file (ids 1, 2, 3) and the deletion of id 2, the next
  create gets id 4.
\<close>

theorem create_assigns_next_id_witness:
  "run None [Create new_ada, Create new_bea, Create new_cleo, Delete_by_id 2] = Some [ada, cleo] \<and>
   new_codice_fiscale new_dora \<notin> codice_fiscale ` set (table (Some [ada, cleo])) \<and>
   create_item (Some [ada, cleo]) new_dora =
     (Some [ada, cleo,
            \<lparr>ident = 4, nome = ''Dora'', cognome = ''Gallo'', codice_fiscale = ''GLLDRO''\<rparr>],
      Inr \<lparr>ident = 4, nome = ''Dora'', cognome = ''Gallo'', codice_fiscale = ''GLLDRO''\<rparr>)"
  using create_assigns_next_id [of new_dora "Some [ada, cleo]"]
  by (simp add: run_def create_item_table get_next_id_table delete_item_table
      new_ada_def new_bea_def new_cleo_def new_dora_def ada_def cleo_def)



section \<open>Ids that are not in the table\<close>

text \<open>
  Claim C7: for an id that no row of the table has, also when the table has no rows or
  the file does not exist yet, \<open>get_item\<close>, \<open>update_item\<close> and \<open>delete_item\<close> each raise
  the exception with status 404, and the file they leave holds the rows it held before.
\<close>

theorem absent_id_not_found:
  assumes "item_id \<notin> ident ` set (table f)"
  shows "get_item f item_id = (Some (table f), Inl (HTTPException 404 ''Item not found'')) \<and>
         update_item f item_id u = (Some (table f), Inl (HTTPException 404 ''Item not found'')) \<and>
         delete_item f item_id = (Some (table f), Inl (HTTPException 404 ''Item not found''))"
proof -
  have none: "\<forall>x\<in>set (table f). ident x \<noteq> item_id"
    using assms by auto
  then have "find (\<lambda>r. ident r = item_id) (table f) = None"
    by (simp add: find_None_iff)
  then have "get_item f item_id = (Some (table f), Inl (HTTPException 404 ''Item not found''))"
    by (simp add: get_item_table)
  moreover have "filter (\<lambda>i. ident (table f ! i) = item_id) [0..<length (table f)] = []"
    using none no_index [of "\<lambda>r. ident r = item_id" "table f"] by simp
  then have "update_item f item_id u = (Some (table f), Inl (HTTPException 404 ''Item not found''))"
    by (rule update_item_not_found)
  moreover have "delete_item f item_id = (Some (table f), Inl (HTTPException 404 ''Item not found''))"
    using assms by (simp add: delete_item_table)
  ultimately show ?thesis
    by simp
qed

theorem absent_id_not_found_witness:
  "3 \<notin> ident ` set (table (Some [ada, bea])) \<and>
   get_item (Some [ada, bea]) 3 = (Some [ada, bea], Inl (HTTPException 404 ''Item not found'')) \<and>
   update_item (Some [ada, bea]) 3 blank_fiscal_code =
     (Some [ada, bea], Inl (HTTPException 404 ''Item not found'')) \<and>
   delete_item (Some [ada, bea]) 3 = (Some [ada, bea], Inl (HTTPException 404 ''Item not found'')) \<and>
   delete_item None 3 = (Some [], Inl (HTTPException 404 ''Item not found''))"
  using absent_id_not_found [of 3 "Some [ada, bea]" blank_fiscal_code]
    absent_id_not_found [of 3 None blank_fiscal_code]
  by (simp add: ada_def bea_def)

section \<open>Updating\<close>

text \<open>The first position of the table that holds a given id, when some row has it.\<close>

lemma first_row_index:
  assumes "item_id \<in> ident ` set (table f)"
  obtains idx js where
    "filter (\<lambda>i. ident (table f ! i) = item_id) [0..<length (table f)] = idx # js"
    "idx < length (table f)" "ident (table f ! idx) = item_id"
    "\<forall>j<idx. ident (table f ! j) \<noteq> item_id"
proof -
  have "filter (\<lambda>i. ident (table f ! i) = item_id) [0..<length (table f)] \<noteq> []"
    using assms no_index [of "\<lambda>r. ident r = item_id" "table f"] by auto
  then obtain idx js where
    eq: "filter (\<lambda>i. ident (table f ! i) = item_id) [0..<length (table f)] = idx # js"
    by (cases "filter (\<lambda>i. ident (table f ! i) = item_id) [0..<length (table f)]") auto
  from first_index [of "\<lambda>r. ident r = item_id" "table f" idx js] eq that show thesis
    by simp
qed



section \<open>Deleting\<close>



section \<open>The frame of an update\<close>




section \<open>Reading back a created record\<close>

text \<open>The three ways in which \<open>update_item\<close> ends.\<close>

lemma update_item_cases:
  obtains
    (not_found) "item_id \<notin> ident ` set (table f)"
      "update_item f item_id u = (Some (table f), Inl (HTTPException 404 ''Item not found''))"
  | (duplicate) "truthy (upd_codice_fiscale u)"
      "\<exists>x\<in>set (table f). Some (codice_fiscale x) = upd_codice_fiscale u \<and> ident x \<noteq> item_id"
      "item_id \<in> ident ` set (table f)"
      "update_item f item_id u =
         (Some (table f), Inl (HTTPException 400 ''Codice fiscale already exists''))"
  | (updated) idx r where "idx < length (table f)" "ident (table f ! idx) = item_id"
      "ident r = item_id"
      "codice_fiscale r =
         (case upd_codice_fiscale u of None \<Rightarrow> codice_fiscale (table f ! idx) | Some v \<Rightarrow> v)"
      "\<not> (truthy (upd_codice_fiscale u) \<and>
          (\<exists>x\<in>set (table f). Some (codice_fiscale x) = upd_codice_fiscale u \<and> ident x \<noteq> item_id))"
      "update_item f item_id u = (Some ((table f)[idx := r]), Inr r)"
proof (cases "item_id \<in> ident ` set (table f)")
  case False
  then have "filter (\<lambda>i. ident (table f ! i) = item_id) [0..<length (table f)] = []"
    using no_index [of "\<lambda>r. ident r = item_id" "table f"] by auto
  then have "update_item f item_id u = (Some (table f), Inl (HTTPException 404 ''Item not found''))"
    by (rule update_item_not_found)
  with False show thesis by (rule not_found)
next
  case True
  then obtain idx js where
    eq: "filter (\<lambda>i. ident (table f ! i) = item_id) [0..<length (table f)] = idx # js" and
    idx: "idx < length (table f)" and here: "ident (table f ! idx) = item_id"
    by (rule first_row_index)
  show thesis
  proof (cases "truthy (upd_codice_fiscale u) \<and>
      (\<exists>x\<in>set (table f). Some (codice_fiscale x) = upd_codice_fiscale u \<and> ident x \<noteq> item_id)")
    case dup: True
    then have "update_item f item_id u =
        (Some (table f), Inl (HTTPException 400 ''Codice fiscale already exists''))"
      by (simp add: update_item_found [OF eq])
    with dup True show thesis by (intro duplicate) simp_all
  next
    case ok: False
    define r where "r = \<lparr>ident = ident (table f ! idx),
      nome = (case upd_nome u of None \<Rightarrow> nome (table f ! idx) | Some v \<Rightarrow> v),
      cognome = (case upd_cognome u of None \<Rightarrow> cognome (table f ! idx) | Some v \<Rightarrow> v),
      codice_fiscale = (case upd_codice_fiscale u of
                          None \<Rightarrow> codice_fiscale (table f ! idx) | Some v \<Rightarrow> v)\<rparr>"
    have "update_item f item_id u = (Some ((table f)[idx := r]), Inr r)"
      using ok by (simp add: update_item_found [OF eq] Let_def r_def)
    moreover have "ident r = item_id" and
      "codice_fiscale r =
         (case upd_codice_fiscale u of None \<Rightarrow> codice_fiscale (table f ! idx) | Some v \<Rightarrow> v)"
      using here by (simp_all add: r_def)
    ultimately show thesis
      using idx here ok by (intro updated [of idx r])
  qed
qed






lemma next_id_fresh: "x \<in> set (table f) \<Longrightarrow> ident x < snd (get_next_id f)"
proof -
  assume x: "x \<in> set (table f)"
  then have "ident x \<le> Max (ident ` set (table f))"
    by (intro Max_ge) auto
  with x show ?thesis
    by (auto simp add: get_next_id_table)
qed





section \<open>Uniqueness\<close>

text \<open>
  Ids stay unique: a create takes an id above every id of the table, an update keeps the
  column of ids, a delete filters rows out. So every table that calls of the handlers
  produce from a missing file has unique ids.
\<close>

lemma create_keeps_unique_ids:
  assumes "unique_ids (table f)"
  shows "unique_ids (table (fst (create_item f item)))"
proof -
  have "snd (get_next_id f) \<notin> ident ` set (table f)"
    using next_id_fresh [of _ f] by fastforce
  with assms show ?thesis
    by (simp add: create_item_table unique_ids_def)
qed

lemma update_keeps_ids:
  "map ident (table (fst (update_item f item_id u))) = map ident (table f)"
proof (cases rule: update_item_cases [of item_id f u])
  case not_found
  then show ?thesis by simp
next
  case duplicate
  then show ?thesis by simp
next
  case (updated idx r)
  then show ?thesis
    by (simp add: map_update list_update_same_conv)
qed

lemma delete_keeps_unique_ids:
  "unique_ids (table f) \<Longrightarrow> unique_ids (table (fst (delete_item f item_id)))"
  by (simp add: delete_item_table unique_ids_def distinct_map_filter)

lemma exec_keeps_unique_ids:
  assumes "unique_ids (table f)"
  shows "unique_ids (table (exec f c))"
proof (cases c)
  case (Create item)
  with assms show ?thesis by (simp add: create_keeps_unique_ids)
next
  case (Update j u)
  with assms show ?thesis by (simp add: unique_ids_def update_keeps_ids)
next
  case (Delete_by_id j)
  with assms show ?thesis by (simp add: delete_keeps_unique_ids)
qed (use assms in \<open>simp_all add: get_all_items_table get_item_table get_items_count_table\<close>)

lemma run_keeps_unique_ids:
  "unique_ids (table f) \<Longrightarrow> unique_ids (table (run f calls))"
proof (induction calls arbitrary: f)
  case Nil
  then show ?case by (simp add: run_def)
next
  case (Cons c calls)
  from Cons.prems have "unique_ids (table (exec f c))"
    by (rule exec_keeps_unique_ids)
  then have "unique_ids (table (run (exec f c) calls))"
    by (rule Cons.IH)
  then show ?case by (simp add: run_def)
qed

lemma unique_ids_from_missing_file: "unique_ids (table (run None calls))"
  by (rule run_keeps_unique_ids) (simp add: unique_ids_def)

text \<open>
  Fiscal codes stay unique under a create and under a delete, and under an update unless
  the update supplies the empty string.
\<close>

lemma create_keeps_unique_fiscal_codes:
  "unique_fiscal_codes (table f) \<Longrightarrow> unique_fiscal_codes (table (fst (create_item f item)))"
  by (simp add: create_item_table unique_fiscal_codes_def)

lemma delete_keeps_unique_fiscal_codes:
  "unique_fiscal_codes (table f) \<Longrightarrow> unique_fiscal_codes (table (fst (delete_item f item_id)))"
  by (simp add: delete_item_table unique_fiscal_codes_def distinct_map_filter)

lemma update_keeps_unique_fiscal_codes:
  assumes ids: "unique_ids (table f)" and cfs: "unique_fiscal_codes (table f)"
    and given: "upd_codice_fiscale u \<noteq> Some []"
  shows "unique_fiscal_codes (table (fst (update_item f item_id u)))"
proof (cases rule: update_item_cases [of item_id f u])
  case not_found
  with cfs show ?thesis by simp
next
  case duplicate
  with cfs show ?thesis by simp
next
  case (updated idx r)
  show ?thesis
  proof (cases "upd_codice_fiscale u")
    case None
    with updated have "map codice_fiscale ((table f)[idx := r]) = map codice_fiscale (table f)"
      by (simp add: map_update list_update_same_conv)
    with cfs updated(6) show ?thesis
      by (simp add: unique_fiscal_codes_def)
  next
    case (Some v)
    with given have "truthy (upd_codice_fiscale u)"
      by (simp add: truthy_def)
    with updated(5) Some have others: "\<forall>x\<in>set (table f). codice_fiscale x = v \<longrightarrow> ident x = item_id"
      by auto
    have "v \<notin> set (map codice_fiscale (table f)) - {map codice_fiscale (table f) ! idx}"
    proof
      assume "v \<in> set (map codice_fiscale (table f)) - {map codice_fiscale (table f) ! idx}"
      then obtain k where k: "k < length (table f)" "codice_fiscale (table f ! k) = v"
        and differ: "v \<noteq> codice_fiscale (table f ! idx)"
        using updated(1) by (auto simp add: in_set_conv_nth)
      from k others have "ident (table f ! k) = item_id"
        using nth_mem [of k "table f"] by auto
      with updated(1,2) k(1) ids have "k = idx"
        by (simp add: unique_ids_def distinct_conv_nth) (metis length_map nth_map)
      with k(2) differ show False by simp
    qed
    with cfs have "distinct ((map codice_fiscale (table f))[idx := v])"
      unfolding unique_fiscal_codes_def by (intro distinct_list_update)
    with updated(4,6) Some show ?thesis
      by (simp add: unique_fiscal_codes_def map_update)
  qed
qed

text \<open>
  Claim C1 says that no create, update or delete takes a table with unique fiscal codes
  to one without. An update that supplies the empty string does: its duplicate check is
  skipped, because the guard tests the truth value of the supplied text while the
  assignment tests that it is not \<^verbatim>\<open>None\<close>. Two creates on a missing file, one of them
  with the empty fiscal code, give a table with unique fiscal codes; updating the other
  record to the empty fiscal code succeeds and leaves two rows with the same fiscal code.
\<close>

theorem blank_fiscal_code_breaks_uniqueness:
  "run None [Create new_ugo, Create new_bea] = Some [ugo, bea] \<and>
   unique_fiscal_codes [ugo, bea] \<and>
   update_item (Some [ugo, bea]) 2 blank_fiscal_code =
     (Some [ugo, bea\<lparr>codice_fiscale := []\<rparr>], Inr (bea\<lparr>codice_fiscale := []\<rparr>)) \<and>
   \<not> unique_fiscal_codes [ugo, bea\<lparr>codice_fiscale := []\<rparr>]"
  by (simp add: run_def create_item_table get_next_id_table unique_fiscal_codes_def
      update_item_def read_csv_def init_csv_def write_csv_def truthy_def
      set_nome_def set_cognome_def set_codice_fiscale_def
      ugo_def bea_def new_ugo_def new_bea_def blank_fiscal_code_def)

text \<open>
  When the id is in the table, \<open>update_item\<close> raises the duplicate exception exactly when
  the supplied fiscal code is a non-empty text that a row with another id holds.
\<close>

lemma update_duplicate_iff:
  assumes "item_id \<in> ident ` set (table f)"
  shows "snd (update_item f item_id u) = Inl (HTTPException 400 ''Codice fiscale already exists'') \<longleftrightarrow>
         truthy (upd_codice_fiscale u) \<and>
         (\<exists>x\<in>set (table f). Some (codice_fiscale x) = upd_codice_fiscale u \<and> ident x \<noteq> item_id)"
proof (cases rule: update_item_cases [of item_id f u])
  case not_found
  with assms show ?thesis by simp
next
  case duplicate
  then show ?thesis by simp
next
  case (updated idx r)
  then show ?thesis by simp
qed

text \<open>
  Claim C6 says that an update of an existing id raises the duplicate exception exactly
  when the supplied fiscal code belongs to a record with another id. With the empty
  string as supplied fiscal code it does not: the record with id 1 holds the empty
  fiscal code, and the update of id 2 to the empty fiscal code returns the updated record.
\<close>

theorem blank_fiscal_code_not_rejected:
  "2 \<in> ident ` set (table (Some [ugo, bea])) \<and>
   upd_codice_fiscale blank_fiscal_code = Some (codice_fiscale ugo) \<and>
   ugo \<in> set (table (Some [ugo, bea])) \<and> ident ugo \<noteq> 2 \<and>
   snd (update_item (Some [ugo, bea]) 2 blank_fiscal_code) = Inr (bea\<lparr>codice_fiscale := []\<rparr>)"
  by (simp add: update_item_def read_csv_def init_csv_def write_csv_def truthy_def
      set_nome_def set_cognome_def set_codice_fiscale_def
      ugo_def bea_def blank_fiscal_code_def)

end
